theory Spec2Isabelle
  imports Complex_Main "HOL-Library.Multiset" "HOL-Library.Sublist"
begin

section \<open>JavaScript numbers\<close>

text \<open>
  The ledger is written in TypeScript; every numeric field has type \<open>number\<close>, an
  IEEE 754 binary64 value. A finite number is modelled by the rational it denotes
  (\<open>Fin\<close>; the two zeros are identified, as \<open>===\<close> does), the other values are the
  two infinities and NaN. Every arithmetic operation computes the exact result and
  rounds it to the nearest binary64 value, ties to even (\<open>fl\<close>).
\<close>

datatype js_number = Fin rat | PosInf | NegInf | NaN

function bit_length :: "nat \<Rightarrow> nat" where
  "bit_length n = (if n = 0 then 0 else bit_length (n div 2) + 1)"
  by pat_completeness auto
termination
  by (relation "measure id") auto

declare bit_length.simps [simp del]

definition pow2 :: "int \<Rightarrow> rat" where
  "pow2 e = (if 0 \<le> e then 2 ^ nat e else 1 / 2 ^ nat (- e))"

text \<open>For \<open>0 < a\<close>, \<open>ilog2 a\<close> is the exponent \<open>e\<close> with \<open>2^e \<le> a < 2^(e+1)\<close>.\<close>

definition ilog2 :: "rat \<Rightarrow> int" where
  "ilog2 a = (if 1 \<le> a then int (bit_length (nat \<lfloor>a\<rfloor>)) - 1
              else - int (bit_length (nat (\<lceil>1 / a\<rceil> - 1))))"

definition round_half_even :: "rat \<Rightarrow> int" where
  "round_half_even a =
     (let n = \<lfloor>a\<rfloor>; d = a - of_int n
      in if d < 1 / 2 then n else if 1 / 2 < d then n + 1
         else if even n then n else n + 1)"

text \<open>
  Rounding to binary64: 53 significant bits, the spacing never below \<open>2^-1074\<close>
  (subnormal numbers), and a rounded magnitude of \<open>2^1024\<close> or more is an infinity.
\<close>

definition fl :: "rat \<Rightarrow> js_number" where
  "fl x =
     (if x = 0 then Fin 0
      else let a = \<bar>x\<bar>;
               q = max (ilog2 a - 52) (- 1074);
               y = of_int (round_half_even (a / pow2 q)) * pow2 q
           in if 2 ^ 1024 \<le> y then (if 0 < x then PosInf else NegInf)
              else Fin (if 0 < x then y else - y))"

fun js_neg :: "js_number \<Rightarrow> js_number" where
  "js_neg (Fin a) = Fin (- a)"
| "js_neg PosInf = NegInf"
| "js_neg NegInf = PosInf"
| "js_neg NaN = NaN"

fun js_add :: "js_number \<Rightarrow> js_number \<Rightarrow> js_number" where
  "js_add (Fin a) (Fin b) = fl (a + b)"
| "js_add NaN _ = NaN"
| "js_add _ NaN = NaN"
| "js_add PosInf NegInf = NaN"
| "js_add NegInf PosInf = NaN"
| "js_add PosInf _ = PosInf"
| "js_add NegInf _ = NegInf"
| "js_add _ PosInf = PosInf"
| "js_add _ NegInf = NegInf"

definition js_sub :: "js_number \<Rightarrow> js_number \<Rightarrow> js_number" where
  "js_sub x y = js_add x (js_neg y)"

fun js_mul :: "js_number \<Rightarrow> js_number \<Rightarrow> js_number" where
  "js_mul (Fin a) (Fin b) = fl (a * b)"
| "js_mul NaN _ = NaN"
| "js_mul _ NaN = NaN"
| "js_mul PosInf (Fin b) = (if b = 0 then NaN else if 0 < b then PosInf else NegInf)"
| "js_mul NegInf (Fin b) = (if b = 0 then NaN else if 0 < b then NegInf else PosInf)"
| "js_mul (Fin a) PosInf = (if a = 0 then NaN else if 0 < a then PosInf else NegInf)"
| "js_mul (Fin a) NegInf = (if a = 0 then NaN else if 0 < a then NegInf else PosInf)"
| "js_mul PosInf PosInf = PosInf"
| "js_mul NegInf NegInf = PosInf"
| "js_mul PosInf NegInf = NegInf"
| "js_mul NegInf PosInf = NegInf"

text \<open>
  Division. The source divides by the literal \<open>1000\<close> only; a zero divisor is taken
  as \<open>+0\<close>.
\<close>

fun js_div :: "js_number \<Rightarrow> js_number \<Rightarrow> js_number" where
  "js_div (Fin a) (Fin b) =
     (if b = 0 then (if a = 0 then NaN else if 0 < a then PosInf else NegInf)
      else fl (a / b))"
| "js_div NaN _ = NaN"
| "js_div _ NaN = NaN"
| "js_div (Fin a) _ = Fin 0"
| "js_div PosInf (Fin b) = (if 0 \<le> b then PosInf else NegInf)"
| "js_div NegInf (Fin b) = (if 0 \<le> b then NegInf else PosInf)"
| "js_div _ _ = NaN"

text \<open>The comparisons \<open><=\<close> and \<open><\<close>: false whenever an operand is NaN.\<close>

fun js_le :: "js_number \<Rightarrow> js_number \<Rightarrow> bool" where
  "js_le (Fin a) (Fin b) = (a \<le> b)"
| "js_le NaN _ = False"
| "js_le _ NaN = False"
| "js_le NegInf _ = True"
| "js_le _ PosInf = True"
| "js_le _ _ = False"

fun js_lt :: "js_number \<Rightarrow> js_number \<Rightarrow> bool" where
  "js_lt (Fin a) (Fin b) = (a < b)"
| "js_lt NaN _ = False"
| "js_lt _ NaN = False"
| "js_lt PosInf _ = False"
| "js_lt _ NegInf = False"
| "js_lt _ _ = True"

text \<open>
  \<open>x.toFixed(d)\<close> returns a string, modelled by what it denotes. For a finite \<open>x\<close>
  below \<open>10^21\<close> in magnitude it is the decimal \<open>n / 10^d\<close> with \<open>n\<close> the integer
  nearest to \<open>|x| * 10^d\<close>, the larger one on a tie, under the sign of \<open>x\<close>; from
  \<open>10^21\<close> on it is the text of \<open>x\<close> itself. \<open>Number\<close> reads the string back: the
  binary64 value nearest to the decimal.
\<close>

datatype num_text = Decimal rat | InfinityText | MinusInfinityText | NaNText

fun toFixed :: "js_number \<Rightarrow> nat \<Rightarrow> num_text" where
  "toFixed (Fin x) d =
     (if 10 ^ 21 \<le> \<bar>x\<bar> then Decimal x
      else Decimal ((if x < 0 then - 1 else 1) * of_int \<lfloor>\<bar>x\<bar> * 10 ^ d + 1 / 2\<rfloor> / 10 ^ d))"
| "toFixed PosInf d = InfinityText"
| "toFixed NegInf d = MinusInfinityText"
| "toFixed NaN d = NaNText"

fun Number :: "num_text \<Rightarrow> js_number" where
  "Number (Decimal r) = fl r"
| "Number InfinityText = PosInf"
| "Number MinusInfinityText = NegInf"
| "Number NaNText = NaN"

section \<open>Data model (types.ts)\<close>

text \<open>
  An entry is the form's fields spread into a new object with four more fields
  (\<open>{...formData, id, totalAmount, productionWeight, consumptionKg}\<close>), a payment the
  payment form's fields with an id: both are record extensions.
\<close>

record FormData =
  date :: string
  runningDrum :: js_number
  openStockGrams :: js_number
  productionCones :: js_number
  closingStockGrams :: js_number
  ratePerKg :: js_number

record ProductionEntry = FormData +
  id :: string
  totalAmount :: js_number
  productionWeight :: js_number
  consumptionKg :: js_number

record PaymentForm =
  date :: string
  amount :: js_number
  "note" :: string

record Payment = PaymentForm +
  id :: string

section \<open>Weight and amount calculator (App.tsx)\<close>

definition calculateProductionWeight ::
  "js_number \<Rightarrow> js_number \<Rightarrow> js_number \<Rightarrow> js_number \<Rightarrow> js_number" where
  "calculateProductionWeight drum opn cls cones =
     (let part1 = js_div (js_mul drum (js_sub (Fin 1250) opn)) (Fin 1000);
          part2 = js_div (js_mul cls (Fin 30)) (Fin 1000);
          part3 = js_div (js_mul (js_sub cones drum) (Fin 1250)) (Fin 1000)
      in Number (toFixed (js_add (js_add part1 part2) part3) 3))"

definition currentWeight :: "FormData \<Rightarrow> js_number" where
  "currentWeight fd =
     calculateProductionWeight (runningDrum fd) (openStockGrams fd)
       (closingStockGrams fd) (productionCones fd)"

definition currentAmount :: "FormData \<Rightarrow> js_number" where
  "currentAmount fd = Number (toFixed (js_mul (currentWeight fd) (ratePerKg fd)) 2)"




section \<open>Ledger state and its operations (App.tsx)\<close>

text \<open>
  The component's state: the two collections, the two form drafts and the selected
  period. Every handler is a function from the state to the new state; what the
  platform supplies (the identifier \<open>uuidv4()\<close> returns, today's date, the answer to
  a \<open>confirm\<close> dialog) is an argument.
\<close>

record app =
  entries :: "ProductionEntry list"
  payments :: "Payment list"
  formData :: FormData
  paymentForm :: PaymentForm
  selectedMonth :: string

text \<open>\<open>s.startsWith(p)\<close> and \<open>s.endsWith(p)\<close> on strings.\<close>

definition startsWith :: "string \<Rightarrow> string \<Rightarrow> bool" where
  "startsWith s p = (take (length p) s = p)"

definition endsWith :: "string \<Rightarrow> string \<Rightarrow> bool" where
  "endsWith s p = (length p \<le> length s \<and> drop (length s - length p) s = p)"

definition filteredEntries :: "app \<Rightarrow> ProductionEntry list" where
  "filteredEntries st =
     (if selectedMonth st = ''all'' then entries st
      else filter (\<lambda>e. startsWith (FormData.date e) (selectedMonth st)) (entries st))"

definition filteredPayments :: "app \<Rightarrow> Payment list" where
  "filteredPayments st =
     (if selectedMonth st = ''all'' then payments st
      else filter (\<lambda>p. startsWith (PaymentForm.date p) (selectedMonth st)) (payments st))"

text \<open>
  The summary. The source formats the three totals and their difference for display;
  the record holds the numbers it formats, and the sign test it makes on the balance.
\<close>

record Stats =
  totalWeight :: js_number
  totalValue :: js_number
  totalPaid :: js_number
  outstandingBalance :: js_number
  isBalanceNegative :: bool

definition stats :: "ProductionEntry list \<Rightarrow> Payment list \<Rightarrow> Stats" where
  "stats fe fp =
     (let tw = foldl (\<lambda>acc curr. js_add acc (productionWeight curr)) (Fin 0) fe;
          tv = foldl (\<lambda>acc curr. js_add acc (totalAmount curr)) (Fin 0) fe;
          tp = foldl (\<lambda>acc curr. js_add acc (amount curr)) (Fin 0) fp
      in \<lparr>totalWeight = tw, totalValue = tv, totalPaid = tp,
          outstandingBalance = js_sub tv tp,
          isBalanceNegative = js_lt (js_sub tv tp) (Fin 0)\<rparr>)"

text \<open>
  A running total is exact when every value added is finite and no addition rounds:
  each partial sum is itself a binary64 value.
\<close>

fun exact_total :: "rat \<Rightarrow> js_number list \<Rightarrow> bool" where
  "exact_total acc [] = True"
| "exact_total acc (Fin x # xs) = (fl (acc + x) = Fin (acc + x) \<and> exact_total (acc + x) xs)"
| "exact_total acc (_ # xs) = False"

fun fin_value :: "js_number \<Rightarrow> rat" where
  "fin_value (Fin r) = r"
| "fin_value _ = 0"

definition handleSubmit :: "string \<Rightarrow> app \<Rightarrow> app" where
  "handleSubmit uuid st =
     (let fd = formData st;
          newEntry = \<lparr>FormData.date = FormData.date fd, runningDrum = runningDrum fd,
            openStockGrams = openStockGrams fd, productionCones = productionCones fd,
            closingStockGrams = closingStockGrams fd, ratePerKg = ratePerKg fd,
            ProductionEntry.id = uuid,
            totalAmount = currentAmount fd,
            productionWeight = currentWeight fd,
            consumptionKg = js_div (js_sub (openStockGrams fd) (closingStockGrams fd)) (Fin 1000)\<rparr>
      in st\<lparr>entries := newEntry # entries st,
            formData := fd\<lparr>openStockGrams := Fin 0, productionCones := Fin 0,
                              closingStockGrams := Fin 0\<rparr>\<rparr>)"

definition handlePaymentSubmit :: "string \<Rightarrow> string \<Rightarrow> app \<Rightarrow> app" where
  "handlePaymentSubmit uuid today st =
     (if js_le (amount (paymentForm st)) (Fin 0) then st
      else let pf = paymentForm st;
               newPayment = \<lparr>PaymentForm.date = PaymentForm.date pf, amount = amount pf,
                 note = note pf, Payment.id = uuid\<rparr>
           in st\<lparr>payments := newPayment # payments st,
                 paymentForm := \<lparr>PaymentForm.date = today, amount = Fin 0, note = ''''\<rparr>\<rparr>)"

definition deleteEntry :: "bool \<Rightarrow> string \<Rightarrow> app \<Rightarrow> app" where
  "deleteEntry confirmed i st =
     (if confirmed then st\<lparr>entries := filter (\<lambda>e. ProductionEntry.id e \<noteq> i) (entries st)\<rparr>
      else st)"

definition deletePayment :: "bool \<Rightarrow> string \<Rightarrow> app \<Rightarrow> app" where
  "deletePayment confirmed i st =
     (if confirmed then st\<lparr>payments := filter (\<lambda>p. Payment.id p \<noteq> i) (payments st)\<rparr>
      else st)"

section \<open>Insight requester (services/gemini.ts)\<close>

text \<open>
  \<open>xs.slice(start)\<close>: a negative start counts from the end, and both ends are clamped
  to the array.
\<close>

definition slice :: "int \<Rightarrow> 'a list \<Rightarrow> 'a list" where
  "slice start xs =
     (let len = int (length xs);
          k = (if start < 0 then max (len + start) 0 else min start len)
      in drop (nat k) xs)"

text \<open>
  The request sent to the text-generation service: the model name, and the entries
  whose serialisation the prompt embeds between its fixed instruction lines. The
  service answers with a text (possibly missing) or fails. The requester returns the
  insight together with the requests it has issued. Building the client object, which
  comes before the request, is taken not to fail.
\<close>

record request =
  model :: string
  data :: "ProductionEntry list"

datatype response = Response "string option" | Failure

definition analyzeProductionData ::
  "(request \<Rightarrow> response) \<Rightarrow> ProductionEntry list \<Rightarrow> string \<times> request list" where
  "analyzeProductionData generateContent dat =
     (if length dat = 0 then (''Add some data to get AI insights.'', [])
      else let req = \<lparr>model = ''gemini-3-flash-preview'', data = slice (- 10) dat\<rparr>
           in (case generateContent req of
                 Response None \<Rightarrow> ''No insights generated.''
               | Response (Some t) \<Rightarrow> (if t = [] then ''No insights generated.'' else t)
               | Failure \<Rightarrow> ''Failed to analyze data with AI.'',
               [req]))"

definition handleAiAnalysis :: "(request \<Rightarrow> response) \<Rightarrow> app \<Rightarrow> string \<times> request list" where
  "handleAiAnalysis generateContent st = analyzeProductionData generateContent (filteredEntries st)"

section \<open>JavaScript values and JSON documents\<close>

text \<open>
  TypeScript's types are erased at run time: what \<open>JSON.parse\<close> returns is put into the
  state as it is. The operations that read or write documents therefore work on
  JavaScript values. An object is the list of its own properties in insertion order.
\<close>

datatype jsv =
    Undefined
  | Null
  | Boolean bool
  | NumberValue js_number
  | StringValue string
  | ArrayValue "jsv list"
  | ObjectValue "(string \<times> jsv) list"
  | FunctionValue string

text \<open>
  The platform's \<open>JSON.stringify\<close> and \<open>JSON.parse\<close> are modelled on the document tree
  that a JSON text denotes, not on its characters. A text is either the text of a JSON
  document or some other text, which \<open>JSON.parse\<close> rejects; the empty string is of the
  second kind.
\<close>

datatype json =
    JNull
  | JBool bool
  | JNumber rat
  | JString string
  | JArray "json list"
  | JObject "(string \<times> json) list"

datatype js_text = JsonText json | OtherText string

datatype error = SyntaxError | TypeError

text \<open>
  \<open>JSON.stringify\<close>: a number that is not finite is written \<open>null\<close>; \<open>undefined\<close> and
  functions are written \<open>null\<close> inside an array, are left out of an object, and have no
  text of their own. A finite number is written as a decimal that reads back as the
  same number.
\<close>

fun JSON_stringify :: "jsv \<Rightarrow> json option"
  and stringify_elements :: "jsv list \<Rightarrow> json list"
  and stringify_members :: "(string \<times> jsv) list \<Rightarrow> (string \<times> json) list" where
  "JSON_stringify Undefined = None"
| "JSON_stringify (FunctionValue f) = None"
| "JSON_stringify Null = Some JNull"
| "JSON_stringify (Boolean b) = Some (JBool b)"
| "JSON_stringify (NumberValue n) = Some (case n of Fin r \<Rightarrow> JNumber r | _ \<Rightarrow> JNull)"
| "JSON_stringify (StringValue s) = Some (JString s)"
| "JSON_stringify (ArrayValue xs) = Some (JArray (stringify_elements xs))"
| "JSON_stringify (ObjectValue kvs) = Some (JObject (stringify_members kvs))"
| "stringify_elements [] = []"
| "stringify_elements (x # xs) =
     (case JSON_stringify x of None \<Rightarrow> JNull | Some j \<Rightarrow> j) # stringify_elements xs"
| "stringify_members [] = []"
| "stringify_members ((k, v) # kvs) =
     (case JSON_stringify v of None \<Rightarrow> stringify_members kvs
      | Some j \<Rightarrow> (k, j) # stringify_members kvs)"

text \<open>
  \<open>JSON.parse\<close>: a number literal becomes the nearest binary64 value; a member whose
  key occurred before replaces the earlier value in its place.
\<close>

fun put_member :: "(string \<times> jsv) list \<Rightarrow> string \<Rightarrow> jsv \<Rightarrow> (string \<times> jsv) list" where
  "put_member [] k v = [(k, v)]"
| "put_member ((k', v') # kvs) k v =
     (if k' = k then (k, v) # kvs else (k', v') # put_member kvs k v)"

fun revive :: "json \<Rightarrow> jsv"
  and revive_elements :: "json list \<Rightarrow> jsv list"
  and revive_members :: "(string \<times> jsv) list \<Rightarrow> (string \<times> json) list \<Rightarrow> (string \<times> jsv) list" where
  "revive JNull = Null"
| "revive (JBool b) = Boolean b"
| "revive (JNumber r) = NumberValue (fl r)"
| "revive (JString s) = StringValue s"
| "revive (JArray js) = ArrayValue (revive_elements js)"
| "revive (JObject kjs) = ObjectValue (revive_members [] kjs)"
| "revive_elements [] = []"
| "revive_elements (j # js) = revive j # revive_elements js"
| "revive_members acc [] = acc"
| "revive_members acc ((k, j) # kjs) = revive_members (put_member acc k (revive j)) kjs"

fun JSON_parse :: "js_text \<Rightarrow> error + jsv" where
  "JSON_parse (JsonText j) = Inr (revive j)"
| "JSON_parse (OtherText s) = Inl SyntaxError"

text \<open>
  Reading a property. On \<open>null\<close> and \<open>undefined\<close> it throws a TypeError; on an object
  it is the own property, or \<open>undefined\<close>. The source reads the two names \<open>entries\<close> and
  \<open>payments\<close> only: of these, arrays inherit the method \<open>entries\<close>, and no other kind of
  value inherits either.
\<close>

fun get_property :: "jsv \<Rightarrow> string \<Rightarrow> error + jsv" where
  "get_property Undefined k = Inl TypeError"
| "get_property Null k = Inl TypeError"
| "get_property (ObjectValue kvs) k =
     Inr (case map_of kvs k of None \<Rightarrow> Undefined | Some v \<Rightarrow> v)"
| "get_property (ArrayValue xs) k =
     Inr (if k = ''entries'' then FunctionValue ''entries'' else Undefined)"
| "get_property _ k = Inr Undefined"

fun truthy :: "jsv \<Rightarrow> bool" where
  "truthy Undefined = False"
| "truthy Null = False"
| "truthy (Boolean b) = b"
| "truthy (NumberValue n) = (case n of Fin r \<Rightarrow> r \<noteq> 0 | NaN \<Rightarrow> False | _ \<Rightarrow> True)"
| "truthy (StringValue s) = (s \<noteq> [])"
| "truthy _ = True"

fun text_truthy :: "js_text \<Rightarrow> bool" where
  "text_truthy (OtherText s) = (s \<noteq> [])"
| "text_truthy (JsonText j) = True"

section \<open>Persistence and backup (App.tsx)\<close>

record ledger =
  entries_value :: jsv
  payments_value :: jsv

definition entry_value :: "ProductionEntry \<Rightarrow> jsv" where
  "entry_value e = ObjectValue
     [(''date'', StringValue (FormData.date e)),
      (''runningDrum'', NumberValue (runningDrum e)),
      (''openStockGrams'', NumberValue (openStockGrams e)),
      (''productionCones'', NumberValue (productionCones e)),
      (''closingStockGrams'', NumberValue (closingStockGrams e)),
      (''ratePerKg'', NumberValue (ratePerKg e)),
      (''id'', StringValue (ProductionEntry.id e)),
      (''totalAmount'', NumberValue (totalAmount e)),
      (''productionWeight'', NumberValue (productionWeight e)),
      (''consumptionKg'', NumberValue (consumptionKg e))]"

definition payment_value :: "Payment \<Rightarrow> jsv" where
  "payment_value p = ObjectValue
     [(''date'', StringValue (PaymentForm.date p)),
      (''amount'', NumberValue (amount p)),
      (''note'', StringValue (note p)),
      (''id'', StringValue (Payment.id p))]"

definition ledger_of :: "ProductionEntry list \<Rightarrow> Payment list \<Rightarrow> ledger" where
  "ledger_of es ps =
     \<lparr>entries_value = ArrayValue (map entry_value es),
      payments_value = ArrayValue (map payment_value ps)\<rparr>"

text \<open>
  The state initialisers: \<open>saved ? JSON.parse(saved) : []\<close> for each of the two keys,
  with nothing around them that catches an exception.
\<close>

definition load :: "js_text option \<Rightarrow> error + jsv" where
  "load saved =
     (case saved of
        None \<Rightarrow> Inr (ArrayValue [])
      | Some t \<Rightarrow> if text_truthy t then JSON_parse t else Inr (ArrayValue []))"

definition initial_ledger :: "(string \<Rightarrow> js_text option) \<Rightarrow> error + ledger" where
  "initial_ledger getItem =
     (case load (getItem ''production_entries'') of
        Inl e \<Rightarrow> Inl e
      | Inr es \<Rightarrow>
          (case load (getItem ''production_payments'') of
             Inl e \<Rightarrow> Inl e
           | Inr ps \<Rightarrow> Inr \<lparr>entries_value = es, payments_value = ps\<rparr>))"

record backup_file =
  name :: string
  content :: js_text


text \<open>
  The import: the chosen file (if any), the answer to the \<open>confirm\<close> dialog, the state.
  The result is the new state and the alert shown, if one is.
\<close>

definition handleImportFile :: "bool \<Rightarrow> backup_file option \<Rightarrow> ledger \<Rightarrow> ledger \<times> string option" where
  "handleImportFile confirmed chosen st =
     (case chosen of
        None \<Rightarrow> (st, None)
      | Some f \<Rightarrow>
          if endsWith (name f) ''.json'' then
            (case JSON_parse (content f) of
               Inl e \<Rightarrow> (st, Some ''Error parsing file.'')
             | Inr backup \<Rightarrow>
                 (case get_property backup ''entries'' of
                    Inl e \<Rightarrow> (st, Some ''Error parsing file.'')
                  | Inr es \<Rightarrow>
                      if truthy es then
                        (case get_property backup ''payments'' of
                           Inl e \<Rightarrow> (st, Some ''Error parsing file.'')
                         | Inr ps \<Rightarrow>
                             if truthy ps then
                               (if confirmed
                                then (\<lparr>entries_value = es, payments_value = ps\<rparr>, None)
                                else (st, None))
                             else (st, None))
                      else (st, None)))
          else if endsWith (name f) ''.csv'' then
            (st, Some ''CSV Import optimized for Excel structure. Large files may take a moment.'')
          else (st, None))"

text \<open>A document has a member when it is an object with that key.\<close>

fun has_member :: "json \<Rightarrow> string \<Rightarrow> bool" where
  "has_member (JObject kjs) k = (k \<in> fst ` set kjs)"
| "has_member _ k = False"




section \<open>Sample data\<close>

definition sample_form :: FormData where
  "sample_form = \<lparr>FormData.date = ''2024-03-10'', runningDrum = Fin 5, openStockGrams = Fin 200,
     productionCones = Fin 10, closingStockGrams = Fin 100, ratePerKg = Fin 150\<rparr>"

definition sample_entry :: "string \<Rightarrow> string \<Rightarrow> rat \<Rightarrow> rat \<Rightarrow> ProductionEntry" where
  "sample_entry i d r a = \<lparr>FormData.date = d, runningDrum = Fin 5, openStockGrams = Fin 200,
     productionCones = Fin 10, closingStockGrams = Fin 100, ratePerKg = Fin r,
     ProductionEntry.id = i, totalAmount = Fin a, productionWeight = Fin (29 / 2),
     consumptionKg = Fin (3602879701896397 / 36028797018963968)\<rparr>"

text \<open>An entry of weight 0.6 at the rate 1: no drum, 20 grams of closing stock.\<close>

definition small_entry :: ProductionEntry where
  "small_entry = \<lparr>FormData.date = ''2024-03-01'', runningDrum = Fin 0, openStockGrams = Fin 0,
     productionCones = Fin 0, closingStockGrams = Fin 20, ratePerKg = Fin 1,
     ProductionEntry.id = ''e0'', totalAmount = Fin (5404319552844595 / 9007199254740992),
     productionWeight = Fin (5404319552844595 / 9007199254740992),
     consumptionKg = Fin (- (5764607523034235 / 288230376151711744))\<rparr>"

definition sample_payment :: "string \<Rightarrow> string \<Rightarrow> js_number \<Rightarrow> Payment" where
  "sample_payment i d a = \<lparr>PaymentForm.date = d, amount = a, note = ''cash'', Payment.id = i\<rparr>"

definition sample_state :: "string \<Rightarrow> js_number \<Rightarrow> app" where
  "sample_state month amt =
     \<lparr>entries = [sample_entry ''e2'' ''2024-04-02'' 7 (203 / 2),
                 sample_entry ''e1'' ''2024-03-10'' 150 2175],
      payments = [sample_payment ''p3'' ''2024-03-30'' (Fin 900),
                  sample_payment ''p2'' ''2024-04-01'' (Fin 700),
                  sample_payment ''p1'' ''2024-03-09'' (Fin 500)],
      formData = sample_form,
      paymentForm = \<lparr>PaymentForm.date = ''2024-04-03'', amount = amt, note = ''advance''\<rparr>,
      selectedMonth = month\<rparr>"

definition sample_log :: "ProductionEntry list" where
  "sample_log = map (\<lambda>i. sample_entry i ''2024-03-10'' 150 2175)
     [''e10'', ''e9'', ''e8'', ''e7'', ''e6'', ''e5'', ''e4'', ''e3'', ''e2'', ''e1'']"

definition sample_log_state :: app where
  "sample_log_state = (sample_state ''all'' (Fin 0))\<lparr>entries := sample_log\<rparr>"




section \<open>Evaluation of the number model\<close>

lemma floor_rat_numeral_div [simp]:
  "\<lfloor>(numeral a :: rat) / numeral b\<rfloor> = numeral a div numeral b"
  using floor_divide_of_int_eq [of "numeral a" "numeral b", where ?'a = rat] by simp

lemma floor_rat_one_div [simp]:
  "\<lfloor>(1 :: rat) / numeral b\<rfloor> = 1 div numeral b"
  using floor_divide_of_int_eq [of 1 "numeral b", where ?'a = rat] by simp

lemma ceiling_rat_numeral_div [simp]:
  "\<lceil>(numeral a :: rat) / numeral b\<rceil> = - ((- numeral a) div numeral b)"
  using floor_divide_of_int_eq [of "- numeral a" "numeral b", where ?'a = rat]
  by (simp add: ceiling_def)

lemma bit_length_0 [simp]: "bit_length 0 = 0"
  by (simp add: bit_length.simps)

lemma bit_length_Suc_0 [simp]: "bit_length (Suc 0) = 1"
  by (simp add: bit_length.simps)

lemma bit_length_One [simp]: "bit_length (numeral Num.One) = 1"
  by (simp add: bit_length.simps)

lemma bit_length_Bit0 [simp]:
  "bit_length (numeral (Num.Bit0 n)) = bit_length (numeral n) + 1"
  by (subst bit_length.simps) simp

lemma bit_length_Bit1 [simp]:
  "bit_length (numeral (Num.Bit1 n)) = bit_length (numeral n) + 1"
  by (subst bit_length.simps) simp








lemmas fl_eval = fl_def ilog2_def pow2_def round_half_even_def Let_def

lemmas sample_defs = sample_state_def sample_entry_def sample_payment_def sample_form_def


section \<open>The calculator\<close>

text \<open>
  Below \<open>10^21\<close>, \<open>toFixed\<close> writes a multiple of \<open>10^-d\<close> that is nearest to the number:
  it rounds to \<open>d\<close> decimal places.
\<close>

lemma toFixed_nearest:
  assumes "\<bar>x\<bar> < 10 ^ 21"
  shows "\<exists>k::int. toFixed (Fin x) d = Decimal (of_int k / 10 ^ d)
           \<and> \<bar>of_int k / 10 ^ d - x\<bar> \<le> 1 / (2 * 10 ^ d)"
proof -
  let ?a = "\<bar>x\<bar> * 10 ^ d"
  let ?n = "\<lfloor>?a + 1 / 2\<rfloor>"
  let ?s = "if x < 0 then - 1 else (1::int)"
  have p: "(0::rat) < 10 ^ d" by simp
  have near: "\<bar>of_int ?n - ?a\<bar> \<le> 1 / 2"
    using of_int_round_abs_le [of ?a] by (simp only: round_def)
  have sx: "of_int ?s * \<bar>x\<bar> = x" by simp
  have "of_int (?s * ?n) / 10 ^ d - x = of_int ?s * ((of_int ?n - ?a) / 10 ^ d)"
  proof -
    have "of_int ?s * ((of_int ?n - ?a) / 10 ^ d)
          = of_int ?s * of_int ?n / 10 ^ d - of_int ?s * \<bar>x\<bar>"
      using p by (simp add: field_simps)
    then show ?thesis unfolding sx by simp
  qed
  then have "\<bar>of_int (?s * ?n) / 10 ^ d - x\<bar> = \<bar>of_int ?n - ?a\<bar> / 10 ^ d"
    using p by (simp add: abs_mult)
  also have "\<dots> \<le> (1 / 2) / 10 ^ d"
    using near p by (intro divide_right_mono) simp_all
  also have "\<dots> = 1 / (2 * 10 ^ d)" by simp
  finally have b: "\<bar>of_int (?s * ?n) / 10 ^ d - x\<bar> \<le> 1 / (2 * 10 ^ d)" .
  from assms have "toFixed (Fin x) d = Decimal (of_int (?s * ?n) / 10 ^ d)" by simp
  with b show ?thesis by blast
qed

lemma example_weight:
  "calculateProductionWeight (Fin 5) (Fin 200) (Fin 100) (Fin 10) = Fin (29 / 2)"
  by (simp add: calculateProductionWeight_def js_sub_def fl_eval)

lemma example_amount:
  "currentAmount \<lparr>FormData.date = ''2024-01-01'', runningDrum = Fin 5, openStockGrams = Fin 200,
     productionCones = Fin 10, closingStockGrams = Fin 100, ratePerKg = Fin 150\<rparr> = Fin 2175"
  by (simp add: currentAmount_def currentWeight_def example_weight fl_eval)

text \<open>The sample entries are what submitting the matching form creates.\<close>

lemma sample_entry_submitted:
  "entries (handleSubmit ''e1'' ((sample_state m a)\<lparr>entries := []\<rparr>))
     = [sample_entry ''e1'' ''2024-03-10'' 150 2175]"
  by (simp add: handleSubmit_def Let_def sample_defs currentAmount_def currentWeight_def
      example_weight js_sub_def fl_eval)

lemma small_entry_submitted:
  "entries (handleSubmit ''e0'' ((sample_state m a)\<lparr>entries := [],
     formData := \<lparr>FormData.date = ''2024-03-01'', runningDrum = Fin 0, openStockGrams = Fin 0,
       productionCones = Fin 0, closingStockGrams = Fin 20, ratePerKg = Fin 1\<rparr>\<rparr>))
     = [small_entry]"
  by (simp add: handleSubmit_def Let_def sample_defs small_entry_def currentAmount_def
      currentWeight_def calculateProductionWeight_def js_sub_def fl_eval)




section \<open>Strings and slices\<close>

lemma startsWith_prefix: "startsWith s p \<longleftrightarrow> prefix p s"
  unfolding startsWith_def prefix_def
  by (metis append_eq_conv_conj append_take_drop_id)

lemma slice_neg10: "slice (- 10) xs = drop (length xs - 10) xs"
proof (cases "10 \<le> length xs")
  case True
  then have "nat (int (length xs) - 10) = length xs - 10" by simp
  with True show ?thesis by (simp add: slice_def Let_def max_def)
next
  case False
  then show ?thesis by (simp add: slice_def Let_def max_def)
qed

section \<open>Period filter\<close>

lemma filter_startsWith:
  "filter (\<lambda>r. startsWith (f r) k) xs = filter (\<lambda>r. prefix k (f r)) xs"
  by (simp add: startsWith_prefix)

text \<open>
  C7. With the key \<open>all\<close> the filter returns the whole sequence, unmodified and in
  order; with any other key (a \<open>YYYY-MM\<close> month) it returns exactly the subsequence of
  the records whose date string starts with the key, in the order of the input.
\<close>

theorem period_filter:
  "(selectedMonth st = ''all'' \<longrightarrow>
      filteredEntries st = entries st \<and> filteredPayments st = payments st)
   \<and> (selectedMonth st \<noteq> ''all'' \<longrightarrow>
      filteredEntries st = filter (\<lambda>e. prefix (selectedMonth st) (FormData.date e)) (entries st)
      \<and> filteredPayments st
          = filter (\<lambda>p. prefix (selectedMonth st) (PaymentForm.date p)) (payments st)
      \<and> subseq (filteredEntries st) (entries st)
      \<and> subseq (filteredPayments st) (payments st))"
  by (simp add: filteredEntries_def filteredPayments_def filter_startsWith)

theorem period_filter_witness:
  "selectedMonth (sample_state ''all'' (Fin 0)) = ''all''
   \<and> filteredEntries (sample_state ''all'' (Fin 0)) = entries (sample_state ''all'' (Fin 0))
   \<and> filteredPayments (sample_state ''all'' (Fin 0)) = payments (sample_state ''all'' (Fin 0))
   \<and> selectedMonth (sample_state ''2024-03'' (Fin 0)) \<noteq> ''all''
   \<and> filteredEntries (sample_state ''2024-03'' (Fin 0)) = [sample_entry ''e1'' ''2024-03-10'' 150 2175]
   \<and> filteredPayments (sample_state ''2024-03'' (Fin 0))
       = [sample_payment ''p3'' ''2024-03-30'' (Fin 900), sample_payment ''p1'' ''2024-03-09'' (Fin 500)]"
  using period_filter [of "sample_state ''all'' (Fin 0)"]
    period_filter [of "sample_state ''2024-03'' (Fin 0)"]
  by (simp add: sample_defs)

section \<open>Deletion\<close>

lemma filter_neq_absent: "i \<notin> f ` set xs \<Longrightarrow> filter (\<lambda>r. f r \<noteq> i) xs = xs"
  by (induction xs) auto

lemma filter_neq_present:
  assumes "distinct (map f xs)" and "i \<in> f ` set xs"
  shows "\<exists>pre r post. xs = pre @ r # post \<and> f r = i \<and> filter (\<lambda>r. f r \<noteq> i) xs = pre @ post"
proof -
  from assms(2) obtain r where r: "r \<in> set xs" "f r = i" by auto
  then obtain pre post where xs: "xs = pre @ r # post" by (auto dest: split_list)
  with assms(1) r have "i \<notin> f ` set pre" "i \<notin> f ` set post" by auto
  then have "filter (\<lambda>r. f r \<noteq> i) pre = pre" "filter (\<lambda>r. f r \<noteq> i) post = post"
    by (simp_all add: filter_neq_absent)
  with xs r show ?thesis by auto
qed

text \<open>
  C9. Once the deletion is confirmed: deleting an id that no record of the collection
  carries leaves the state as it is; deleting an id that a record carries, the ids
  being unique, removes that one record and keeps every other record in place.
\<close>

theorem delete_by_id:
  "(i \<notin> ProductionEntry.id ` set (entries st) \<longrightarrow> deleteEntry True i st = st)
   \<and> (j \<notin> Payment.id ` set (payments st) \<longrightarrow> deletePayment True j st = st)
   \<and> (distinct (map ProductionEntry.id (entries st)) \<and> i \<in> ProductionEntry.id ` set (entries st) \<longrightarrow>
        (\<exists>pre e post. entries st = pre @ e # post \<and> ProductionEntry.id e = i
           \<and> deleteEntry True i st = st\<lparr>entries := pre @ post\<rparr>))
   \<and> (distinct (map Payment.id (payments st)) \<and> j \<in> Payment.id ` set (payments st) \<longrightarrow>
        (\<exists>pre p post. payments st = pre @ p # post \<and> Payment.id p = j
           \<and> deletePayment True j st = st\<lparr>payments := pre @ post\<rparr>))"
proof (intro conjI impI)
  assume "i \<notin> ProductionEntry.id ` set (entries st)"
  then show "deleteEntry True i st = st"
    by (simp add: deleteEntry_def filter_neq_absent)
next
  assume "j \<notin> Payment.id ` set (payments st)"
  then show "deletePayment True j st = st"
    by (simp add: deletePayment_def filter_neq_absent)
next
  assume "distinct (map ProductionEntry.id (entries st)) \<and> i \<in> ProductionEntry.id ` set (entries st)"
  then obtain pre e post where "entries st = pre @ e # post" "ProductionEntry.id e = i"
    "filter (\<lambda>e. ProductionEntry.id e \<noteq> i) (entries st) = pre @ post"
    using filter_neq_present [of ProductionEntry.id "entries st" i] by blast
  then show "\<exists>pre e post. entries st = pre @ e # post \<and> ProductionEntry.id e = i
           \<and> deleteEntry True i st = st\<lparr>entries := pre @ post\<rparr>"
    unfolding deleteEntry_def by auto
next
  assume "distinct (map Payment.id (payments st)) \<and> j \<in> Payment.id ` set (payments st)"
  then obtain pre p post where "payments st = pre @ p # post" "Payment.id p = j"
    "filter (\<lambda>p. Payment.id p \<noteq> j) (payments st) = pre @ post"
    using filter_neq_present [of Payment.id "payments st" j] by blast
  then show "\<exists>pre p post. payments st = pre @ p # post \<and> Payment.id p = j
           \<and> deletePayment True j st = st\<lparr>payments := pre @ post\<rparr>"
    unfolding deletePayment_def by auto
qed

theorem delete_by_id_witness:
  "''zz'' \<notin> ProductionEntry.id ` set (entries (sample_state ''all'' (Fin 0)))
   \<and> deleteEntry True ''zz'' (sample_state ''all'' (Fin 0)) = sample_state ''all'' (Fin 0)
   \<and> ''zz'' \<notin> Payment.id ` set (payments (sample_state ''all'' (Fin 0)))
   \<and> deletePayment True ''zz'' (sample_state ''all'' (Fin 0)) = sample_state ''all'' (Fin 0)
   \<and> distinct (map ProductionEntry.id (entries (sample_state ''all'' (Fin 0))))
   \<and> ''e1'' \<in> ProductionEntry.id ` set (entries (sample_state ''all'' (Fin 0)))
   \<and> deleteEntry True ''e1'' (sample_state ''all'' (Fin 0))
       = (sample_state ''all'' (Fin 0))\<lparr>entries := [sample_entry ''e2'' ''2024-04-02'' 7 (203 / 2)]\<rparr>
   \<and> distinct (map Payment.id (payments (sample_state ''all'' (Fin 0))))
   \<and> ''p2'' \<in> Payment.id ` set (payments (sample_state ''all'' (Fin 0)))
   \<and> deletePayment True ''p2'' (sample_state ''all'' (Fin 0))
       = (sample_state ''all'' (Fin 0))\<lparr>payments := [sample_payment ''p3'' ''2024-03-30'' (Fin 900),
            sample_payment ''p1'' ''2024-03-09'' (Fin 500)]\<rparr>"
  using delete_by_id [of "''zz''" "sample_state ''all'' (Fin 0)" "''zz''"]
    delete_by_id [of "''e1''" "sample_state ''all'' (Fin 0)" "''p2''"]
  by (simp add: sample_defs deleteEntry_def deletePayment_def)

section \<open>Payments\<close>

lemma js_lt_not_le: "js_lt (Fin 0) x \<Longrightarrow> \<not> js_le x (Fin 0)"
  by (cases x) auto

text \<open>
  C5. A payment submission whose amount is zero or negative is rejected and leaves
  the state, the payments collection included, as it was; a submission with a positive
  amount puts a new payment, carrying the form's fields and the generated id, in front
  of the collection, and ids that were unique stay unique when the generated id is new.
\<close>

theorem payment_submit:
  "(js_le (amount (paymentForm st)) (Fin 0) \<longrightarrow> handlePaymentSubmit uuid today st = st)
   \<and> (js_lt (Fin 0) (amount (paymentForm st)) \<longrightarrow>
        payments (handlePaymentSubmit uuid today st)
          = \<lparr>PaymentForm.date = PaymentForm.date (paymentForm st),
             amount = amount (paymentForm st), note = note (paymentForm st),
             Payment.id = uuid\<rparr> # payments st
        \<and> entries (handlePaymentSubmit uuid today st) = entries st
        \<and> (uuid \<notin> Payment.id ` set (payments st) \<and> distinct (map Payment.id (payments st)) \<longrightarrow>
             distinct (map Payment.id (payments (handlePaymentSubmit uuid today st)))))"
  by (auto simp: handlePaymentSubmit_def Let_def dest: js_lt_not_le)

theorem payment_submit_witness:
  "js_le (amount (paymentForm (sample_state ''all'' (Fin 0)))) (Fin 0)
   \<and> handlePaymentSubmit ''p4'' ''2024-04-04'' (sample_state ''all'' (Fin 0)) = sample_state ''all'' (Fin 0)
   \<and> js_le (amount (paymentForm (sample_state ''all'' (Fin (- 40))))) (Fin 0)
   \<and> handlePaymentSubmit ''p4'' ''2024-04-04'' (sample_state ''all'' (Fin (- 40)))
       = sample_state ''all'' (Fin (- 40))
   \<and> js_lt (Fin 0) (amount (paymentForm (sample_state ''all'' (Fin 250))))
   \<and> payments (handlePaymentSubmit ''p4'' ''2024-04-04'' (sample_state ''all'' (Fin 250)))
       = \<lparr>PaymentForm.date = ''2024-04-03'', amount = Fin 250, note = ''advance'', Payment.id = ''p4''\<rparr>
         # payments (sample_state ''all'' (Fin 250))
   \<and> ''p4'' \<notin> Payment.id ` set (payments (sample_state ''all'' (Fin 250)))
   \<and> distinct (map Payment.id (payments (sample_state ''all'' (Fin 250))))
   \<and> distinct (map Payment.id
        (payments (handlePaymentSubmit ''p4'' ''2024-04-04'' (sample_state ''all'' (Fin 250)))))"
  using payment_submit [of "sample_state ''all'' (Fin 0)" "''p4''" "''2024-04-04''"]
    payment_submit [of "sample_state ''all'' (Fin (- 40))" "''p4''" "''2024-04-04''"]
    payment_submit [of "sample_state ''all'' (Fin 250)" "''p4''" "''2024-04-04''"]
  by (simp add: sample_defs handlePaymentSubmit_def)

section \<open>Insight requester\<close>

text \<open>
  C10. Called with an empty list of entries, the requester returns the fixed sentence
  and issues no request to the text-generation service.
\<close>

theorem analyze_empty:
  "analyzeProductionData generateContent [] = (''Add some data to get AI insights.'', [])"
  by (simp add: analyzeProductionData_def)

lemma analyze_payload:
  "dat \<noteq> [] \<Longrightarrow>
     snd (analyzeProductionData generateContent dat)
       = [\<lparr>model = ''gemini-3-flash-preview'', data = drop (length dat - 10) dat\<rparr>]"
  by (simp add: analyzeProductionData_def Let_def slice_neg10)

lemma new_entry_in_front:
  "ProductionEntry.id (hd (entries (handleSubmit uuid st))) = uuid
   \<and> tl (entries (handleSubmit uuid st)) = entries st"
  by (simp add: handleSubmit_def Let_def)

text \<open>
  C4. With ten entries in the log and an eleventh just submitted, the request carries
  the ten older entries: the newest entry, which stands in front, is left out, and the
  payload is not the ten most recent entries.
\<close>

theorem insight_payload_example:
  "snd (handleAiAnalysis generateContent (handleSubmit ''e11'' sample_log_state))
     = [\<lparr>model = ''gemini-3-flash-preview'', data = sample_log\<rparr>]
   \<and> ProductionEntry.id (hd (filteredEntries (handleSubmit ''e11'' sample_log_state))) = ''e11''
   \<and> hd (filteredEntries (handleSubmit ''e11'' sample_log_state)) \<notin> set sample_log
   \<and> take 10 (filteredEntries (handleSubmit ''e11'' sample_log_state)) \<noteq> sample_log"
proof -
  let ?st = "handleSubmit ''e11'' sample_log_state"
  have f: "filteredEntries ?st = hd (entries ?st) # sample_log"
    by (simp add: filteredEntries_def handleSubmit_def Let_def sample_log_state_def sample_state_def)
  have i: "ProductionEntry.id (hd (entries ?st)) = ''e11''"
    by (simp add: new_entry_in_front)
  have n: "hd (entries ?st) \<notin> set sample_log"
  proof
    assume "hd (entries ?st) \<in> set sample_log"
    then have "ProductionEntry.id (hd (entries ?st)) \<in> ProductionEntry.id ` set sample_log"
      by (rule imageI)
    with i show False by (simp add: sample_log_def sample_entry_def)
  qed
  have l: "length sample_log = 10" by (simp add: sample_log_def)
  have p: "snd (handleAiAnalysis generateContent ?st)
     = [\<lparr>model = ''gemini-3-flash-preview'', data = sample_log\<rparr>]"
    unfolding handleAiAnalysis_def f by (simp add: analyze_payload l)
  have t: "take 10 (filteredEntries ?st) \<noteq> sample_log"
  proof
    assume "take 10 (filteredEntries ?st) = sample_log"
    then have "hd (take 10 (filteredEntries ?st)) = hd sample_log" by simp
    then have "hd (entries ?st) = hd sample_log" unfolding f by simp
    moreover have "hd sample_log \<in> set sample_log" by (simp add: sample_log_def)
    ultimately show False using n by simp
  qed
  from p i n t show ?thesis unfolding f by simp
qed

section \<open>Aggregation\<close>

lemma foldl_js_add_map:
  "foldl (\<lambda>acc curr. js_add acc (f curr)) a xs = foldl js_add a (map f xs)"
  by (induction xs arbitrary: a) simp_all

lemma foldl_exact:
  "exact_total a xs \<Longrightarrow> foldl js_add (Fin a) xs = Fin (a + sum_list (map fin_value xs))"
proof (induction xs arbitrary: a)
  case Nil
  show ?case by simp
next
  case (Cons x xs)
  show ?case
  proof (cases x)
    case (Fin r)
    with Cons.prems have e: "fl (a + r) = Fin (a + r)" and t: "exact_total (a + r) xs"
      by simp_all
    have "foldl js_add (Fin a) (x # xs) = foldl js_add (Fin (a + r)) xs"
      using Fin e by simp
    also have "\<dots> = Fin (a + r + sum_list (map fin_value xs))"
      using t by (rule Cons.IH)
    finally show ?thesis using Fin by (simp add: add.assoc)
  qed (use Cons.prems in simp_all)
qed

lemma sum_list_perm:
  fixes g :: "'a \<Rightarrow> rat"
  assumes "mset xs = mset ys"
  shows "sum_list (map g xs) = sum_list (map g ys)"
proof -
  have "sum_list (map g xs) = sum_mset (image_mset g (mset xs))"
    by (simp add: sum_mset_sum_list [symmetric])
  also have "\<dots> = sum_mset (image_mset g (mset ys))"
    using assms by simp
  also have "\<dots> = sum_list (map g ys)"
    by (simp add: sum_mset_sum_list [symmetric])
  finally show ?thesis .
qed
lemma exact_total_perm:
  assumes "mset xs = mset ys"
    and "exact_total 0 (map f xs)" and "exact_total 0 (map f ys)"
  shows "foldl (\<lambda>acc curr. js_add acc (f curr)) (Fin 0) xs
       = foldl (\<lambda>acc curr. js_add acc (f curr)) (Fin 0) ys"
proof -
  have "sum_list (map (fin_value \<circ> f) xs) = sum_list (map (fin_value \<circ> f) ys)"
    using assms(1) by (rule sum_list_perm)
  then have "foldl js_add (Fin 0) (map f xs) = foldl js_add (Fin 0) (map f ys)"
    using assms(2,3) by (simp add: foldl_exact)
  then show ?thesis
    using foldl_js_add_map [of f "Fin 0" xs] foldl_js_add_map [of f "Fin 0" ys] by simp
qed

lemma paid_forward:
  "totalPaid (stats []
     [sample_payment ''p1'' ''2024-03-01'' (fl (1 / 10)),
      sample_payment ''p2'' ''2024-03-02'' (fl (2 / 10)),
      sample_payment ''p3'' ''2024-03-03'' (fl (3 / 10))])
   = Fin (1351079888211149 / 2251799813685248)"
  by (simp add: stats_def sample_payment_def fl_eval)

lemma paid_backward:
  "totalPaid (stats []
     [sample_payment ''p3'' ''2024-03-03'' (fl (3 / 10)),
      sample_payment ''p2'' ''2024-03-02'' (fl (2 / 10)),
      sample_payment ''p1'' ''2024-03-01'' (fl (1 / 10))])
   = Fin (5404319552844595 / 9007199254740992)"
  by (simp add: stats_def sample_payment_def fl_eval)

text \<open>
  The difference reaches the display: against one entry worth 0.6, the payments 0.1, 0.2
  and 0.3 leave a negative balance in this order and a zero balance in the reverse order.
\<close>

lemma balance_sign_depends_on_order:
  "isBalanceNegative (stats [small_entry]
     [sample_payment ''p1'' ''2024-03-01'' (fl (1 / 10)),
      sample_payment ''p2'' ''2024-03-02'' (fl (2 / 10)),
      sample_payment ''p3'' ''2024-03-03'' (fl (3 / 10))])
   \<and> \<not> isBalanceNegative (stats [small_entry]
     [sample_payment ''p3'' ''2024-03-03'' (fl (3 / 10)),
      sample_payment ''p2'' ''2024-03-02'' (fl (2 / 10)),
      sample_payment ''p1'' ''2024-03-01'' (fl (1 / 10))])"
  by (simp add: stats_def sample_payment_def small_entry_def js_sub_def fl_eval)

text \<open>
  Binary64 addition is not associative: the payments 0.1, 0.2 and 0.3 add up to
  0.6000000000000001, and in the reverse order to 0.6.
\<close>

theorem aggregation_order_counterexample:
  "mset [sample_payment ''p1'' ''2024-03-01'' (fl (1 / 10)),
         sample_payment ''p2'' ''2024-03-02'' (fl (2 / 10)),
         sample_payment ''p3'' ''2024-03-03'' (fl (3 / 10))]
   = mset [sample_payment ''p3'' ''2024-03-03'' (fl (3 / 10)),
           sample_payment ''p2'' ''2024-03-02'' (fl (2 / 10)),
           sample_payment ''p1'' ''2024-03-01'' (fl (1 / 10))]
   \<and> totalPaid (stats []
        [sample_payment ''p1'' ''2024-03-01'' (fl (1 / 10)),
         sample_payment ''p2'' ''2024-03-02'' (fl (2 / 10)),
         sample_payment ''p3'' ''2024-03-03'' (fl (3 / 10))])
     \<noteq> totalPaid (stats []
        [sample_payment ''p3'' ''2024-03-03'' (fl (3 / 10)),
         sample_payment ''p2'' ''2024-03-02'' (fl (2 / 10)),
         sample_payment ''p1'' ''2024-03-01'' (fl (1 / 10))])"
proof
  show "mset [sample_payment ''p1'' ''2024-03-01'' (fl (1 / 10)),
         sample_payment ''p2'' ''2024-03-02'' (fl (2 / 10)),
         sample_payment ''p3'' ''2024-03-03'' (fl (3 / 10))]
   = mset [sample_payment ''p3'' ''2024-03-03'' (fl (3 / 10)),
           sample_payment ''p2'' ''2024-03-02'' (fl (2 / 10)),
           sample_payment ''p1'' ''2024-03-01'' (fl (1 / 10))]"
    by (simp add: add_mset_commute)
  show "totalPaid (stats []
        [sample_payment ''p1'' ''2024-03-01'' (fl (1 / 10)),
         sample_payment ''p2'' ''2024-03-02'' (fl (2 / 10)),
         sample_payment ''p3'' ''2024-03-03'' (fl (3 / 10))])
     \<noteq> totalPaid (stats []
        [sample_payment ''p3'' ''2024-03-03'' (fl (3 / 10)),
         sample_payment ''p2'' ''2024-03-02'' (fl (2 / 10)),
         sample_payment ''p1'' ''2024-03-01'' (fl (1 / 10))])"
    unfolding paid_forward paid_backward by simp
qed

text \<open>
  C8, as amended. Aggregating a permutation of the filtered entries and payments gives
  the same four totals, and the same sign of the balance, whenever every running total
  is exact in both orders.
\<close>

theorem aggregation_order_independent:
  assumes "mset fe' = mset fe" and "mset fp' = mset fp"
    and "exact_total 0 (map productionWeight fe)" and "exact_total 0 (map productionWeight fe')"
    and "exact_total 0 (map totalAmount fe)" and "exact_total 0 (map totalAmount fe')"
    and "exact_total 0 (map amount fp)" and "exact_total 0 (map amount fp')"
  shows "stats fe' fp' = stats fe fp"
proof -
  have w: "foldl (\<lambda>acc curr. js_add acc (productionWeight curr)) (Fin 0) fe'
         = foldl (\<lambda>acc curr. js_add acc (productionWeight curr)) (Fin 0) fe"
    using assms(1,4,3) by (rule exact_total_perm)
  have v: "foldl (\<lambda>acc curr. js_add acc (totalAmount curr)) (Fin 0) fe'
         = foldl (\<lambda>acc curr. js_add acc (totalAmount curr)) (Fin 0) fe"
    using assms(1,6,5) by (rule exact_total_perm)
  have p: "foldl (\<lambda>acc curr. js_add acc (amount curr)) (Fin 0) fp'
         = foldl (\<lambda>acc curr. js_add acc (amount curr)) (Fin 0) fp"
    using assms(2,8,7) by (rule exact_total_perm)
  show ?thesis
    unfolding stats_def Let_def w v p ..
qed


theorem aggregation_order_independent_witness:
  "mset (rev (entries (sample_state ''all'' (Fin 0)))) = mset (entries (sample_state ''all'' (Fin 0)))
   \<and> mset (rev (payments (sample_state ''all'' (Fin 0)))) = mset (payments (sample_state ''all'' (Fin 0)))
   \<and> exact_total 0 (map productionWeight (entries (sample_state ''all'' (Fin 0))))
   \<and> exact_total 0 (map productionWeight (rev (entries (sample_state ''all'' (Fin 0)))))
   \<and> exact_total 0 (map totalAmount (entries (sample_state ''all'' (Fin 0))))
   \<and> exact_total 0 (map totalAmount (rev (entries (sample_state ''all'' (Fin 0)))))
   \<and> exact_total 0 (map amount (payments (sample_state ''all'' (Fin 0))))
   \<and> exact_total 0 (map amount (rev (payments (sample_state ''all'' (Fin 0)))))
   \<and> stats (rev (entries (sample_state ''all'' (Fin 0)))) (rev (payments (sample_state ''all'' (Fin 0))))
       = stats (entries (sample_state ''all'' (Fin 0))) (payments (sample_state ''all'' (Fin 0)))"
proof -
  have h1: "mset (rev (entries (sample_state ''all'' (Fin 0)))) = mset (entries (sample_state ''all'' (Fin 0)))"
    and h2: "mset (rev (payments (sample_state ''all'' (Fin 0)))) = mset (payments (sample_state ''all'' (Fin 0)))"
    by simp_all
  have h3: "exact_total 0 (map productionWeight (entries (sample_state ''all'' (Fin 0))))"
    by (simp add: sample_defs fl_eval)
  have h4: "exact_total 0 (map productionWeight (rev (entries (sample_state ''all'' (Fin 0)))))"
    by (simp add: sample_defs fl_eval)
  have h5: "exact_total 0 (map totalAmount (entries (sample_state ''all'' (Fin 0))))"
    by (simp add: sample_defs fl_eval)
  have h6: "exact_total 0 (map totalAmount (rev (entries (sample_state ''all'' (Fin 0)))))"
    by (simp add: sample_defs fl_eval)
  have h7: "exact_total 0 (map amount (payments (sample_state ''all'' (Fin 0))))"
    by (simp add: sample_defs fl_eval)
  have h8: "exact_total 0 (map amount (rev (payments (sample_state ''all'' (Fin 0)))))"
    by (simp add: sample_defs fl_eval)
  from aggregation_order_independent [OF h1 h2 h3 h4 h5 h6 h7 h8] h1 h2 h3 h4 h5 h6 h7 h8
  show ?thesis by blast
qed

section \<open>Documents\<close>

lemma put_member_keys: "fst ` set (put_member acc k v) = insert k (fst ` set acc)"
proof (induction acc)
  case Nil
  show ?case by simp
next
  case (Cons a acc)
  obtain k' v' where a: "a = (k', v')" by (cases a)
  show ?case
    unfolding a using Cons.IH by (cases "k' = k") auto
qed

lemma revive_members_keys:
  "fst ` set (revive_members acc kjs) = fst ` set acc \<union> fst ` set kjs"
proof (induction kjs arbitrary: acc)
  case Nil
  show ?case by simp
next
  case (Cons kj kjs)
  obtain k j where kj: "kj = (k, j)" by (cases kj)
  show ?case
    unfolding kj using Cons.IH [of "put_member acc k (revive j)"]
    by (simp add: put_member_keys)
qed

lemma get_missing:
  assumes "\<not> has_member j k" and "k \<noteq> ''entries''"
  shows "get_property (revive j) k = Inl TypeError \<or> get_property (revive j) k = Inr Undefined"
proof (cases j)
  case (JObject kjs)
  with assms(1) have "k \<notin> fst ` set (revive_members [] kjs)"
    by (simp add: revive_members_keys)
  then have "map_of (revive_members [] kjs) k = None"
    by (simp add: map_of_eq_None_iff)
  with JObject show ?thesis by simp
qed (use assms(2) in simp_all)

lemma get_missing_entries:
  assumes "\<not> has_member j ''entries''"
  shows "get_property (revive j) ''entries'' = Inl TypeError
       \<or> get_property (revive j) ''entries'' = Inr Undefined
       \<or> (\<exists>js. j = JArray js)"
proof (cases j)
  case (JObject kjs)
  with assms have "''entries'' \<notin> fst ` set (revive_members [] kjs)"
    by (simp add: revive_members_keys)
  then have "map_of (revive_members [] kjs) ''entries'' = None"
    by (simp add: map_of_eq_None_iff)
  with JObject show ?thesis by simp
qed simp_all

lemma import_without_entries:
  assumes "\<not> has_member j ''entries''"
  shows "fst (handleImportFile c (Some \<lparr>name = n, content = JsonText j\<rparr>) st) = st"
proof -
  from get_missing_entries [OF assms] consider
      "get_property (revive j) ''entries'' = Inl TypeError"
    | "get_property (revive j) ''entries'' = Inr Undefined"
    | js where "j = JArray js"
    by blast
  then show ?thesis
    by cases (simp_all add: handleImportFile_def)
qed

lemma import_without_payments:
  assumes "\<not> has_member j ''payments''"
  shows "fst (handleImportFile c (Some \<lparr>name = n, content = JsonText j\<rparr>) st) = st"
proof -
  from get_missing [OF assms] have
    "get_property (revive j) ''payments'' = Inl TypeError
     \<or> get_property (revive j) ''payments'' = Inr Undefined" by simp
  then show ?thesis
    by (auto simp: handleImportFile_def split: sum.splits)
qed

lemma import_unparseable:
  "fst (handleImportFile c (Some \<lparr>name = n, content = OtherText s\<rparr>) st) = st"
  by (simp add: handleImportFile_def)

lemma import_all_or_nothing:
  "fst (handleImportFile c chosen st) = st
   \<or> (\<exists>f b es ps. chosen = Some f \<and> JSON_parse (content f) = Inr b
        \<and> get_property b ''entries'' = Inr es \<and> get_property b ''payments'' = Inr ps
        \<and> fst (handleImportFile c chosen st) = \<lparr>entries_value = es, payments_value = ps\<rparr>)"
  by (auto simp: handleImportFile_def split: option.splits sum.splits)

text \<open>
  C6. An import whose document does not parse, or lacks the entries member or the
  payments member, leaves the state exactly as it was; and every import either leaves
  the state as it was or replaces both collections by the document's two members.
\<close>

theorem import_rejected:
  "(fst (handleImportFile c (Some \<lparr>name = n, content = OtherText s\<rparr>) st) = st)
   \<and> (\<not> has_member j ''entries'' \<or> \<not> has_member j ''payments'' \<longrightarrow>
        fst (handleImportFile c (Some \<lparr>name = n, content = JsonText j\<rparr>) st) = st)
   \<and> (fst (handleImportFile c chosen st) = st
        \<or> (\<exists>f b es ps. chosen = Some f \<and> JSON_parse (content f) = Inr b
             \<and> get_property b ''entries'' = Inr es \<and> get_property b ''payments'' = Inr ps
             \<and> fst (handleImportFile c chosen st)
                 = \<lparr>entries_value = es, payments_value = ps\<rparr>))"
  using import_unparseable import_without_entries import_without_payments
    import_all_or_nothing by blast

theorem import_rejected_witness:
  "\<not> has_member (JObject [(''entries'', JArray [])]) ''payments''
   \<and> fst (handleImportFile True
        (Some \<lparr>name = ''backup.json'', content = JsonText (JObject [(''entries'', JArray [])])\<rparr>)
        (ledger_of sample_log [])) = ledger_of sample_log []
   \<and> \<not> has_member (JArray []) ''entries''
   \<and> fst (handleImportFile True
        (Some \<lparr>name = ''backup.json'', content = JsonText (JArray [])\<rparr>)
        (ledger_of sample_log [])) = ledger_of sample_log []
   \<and> fst (handleImportFile True
        (Some \<lparr>name = ''backup.json'', content = OtherText ''{entries: [''\<rparr>)
        (ledger_of sample_log [])) = ledger_of sample_log []"
  using import_rejected [of True "''backup.json''" "''{entries: [''" "ledger_of sample_log []"
      "JObject [(''entries'', JArray [])]" None]
    import_rejected [of True "''backup.json''" "''{entries: [''" "ledger_of sample_log []"
      "JArray []" None]
  by simp

section \<open>Loading the persisted state\<close>

text \<open>
  C3. An absent value, and an empty one, load as the empty array; a stored value that
  is not a JSON text makes \<open>JSON.parse\<close> throw in the initialiser, and the exception is
  not caught: the load ends in a SyntaxError instead of the empty array.
\<close>

theorem load_malformed:
  "load None = Inr (ArrayValue [])
   \<and> load (Some (OtherText '''')) = Inr (ArrayValue [])
   \<and> load (Some (JsonText (JArray []))) = Inr (ArrayValue [])
   \<and> load (Some (OtherText ''[{'')) = Inl SyntaxError
   \<and> initial_ledger (\<lambda>key. if key = ''production_entries'' then Some (OtherText ''[{'') else None)
       = Inl SyntaxError
   \<and> initial_ledger (\<lambda>key. if key = ''production_payments'' then Some (OtherText ''[{'') else None)
       = Inl SyntaxError"
  by (simp add: load_def initial_ledger_def)

section \<open>Backup round trip\<close>















end
